theory Spec2Isabelle
  imports Complex_Main "HOL-Library.Sublist"
begin

section \<open>The Azure OpenAI provider of marvin\<close>

text \<open>
  The development follows
  \<^verbatim>\<open>src/marvin/core/ChatCompletion/providers/azure/openai/__init__.py\<close>:
  the response wrapper \<^verbatim>\<open>ChatResponse\<close> (lines 99-119) and the settings class
  \<^verbatim>\<open>ChatCompletionSettings\<close> (lines 16-92), whose body defines \<^verbatim>\<open>__init__\<close>
  twice.
\<close>

subsection \<open>Python values, objects and exceptions\<close>

text \<open>
  The vendor's response objects are attribute dictionaries: reading an attribute that
  the object does not carry raises \<^verbatim>\<open>AttributeError\<close>, whereas
  \<^verbatim>\<open>getattr(obj, name, default)\<close> returns the default. An attribute that is present
  may still hold \<^verbatim>\<open>None\<close>.
\<close>

datatype pyval = PyNone | PyStr string | PyObj "(string \<times> pyval) list"

datatype error = AttributeError string | StopIteration | ValidationError string

type_synonym pyobject = "string \<rightharpoonup> pyval"

definition attr :: "pyobject \<Rightarrow> string \<Rightarrow> error + pyval" where
  "attr obj name = (case obj name of None \<Rightarrow> Inl (AttributeError name) | Some v \<Rightarrow> Inr v)"

definition getattr :: "pyobject \<Rightarrow> string \<Rightarrow> pyval \<Rightarrow> pyval" where
  "getattr obj name dflt = (case obj name of None \<Rightarrow> dflt | Some v \<Rightarrow> v)"

text \<open>\<^verbatim>\<open>next(iter(xs))\<close>: the first element, \<^verbatim>\<open>StopIteration\<close> on an empty list.\<close>

definition next_iter :: "'a list \<Rightarrow> error + 'a" where
  "next_iter xs = (case xs of [] \<Rightarrow> Inl StopIteration | x # _ \<Rightarrow> Inr x)"

text \<open>
  A list comprehension \<^verbatim>\<open>[f(x) for x in xs]\<close> whose body may raise: the first
  exception, in list order, ends it.
\<close>

fun comprehension :: "('a \<Rightarrow> error + 'b) \<Rightarrow> 'a list \<Rightarrow> error + 'b list" where
  "comprehension f [] = Inr []"
| "comprehension f (x # xs) =
     (case f x of
        Inl e \<Rightarrow> Inl e
      | Inr y \<Rightarrow> (case comprehension f xs of Inl e \<Rightarrow> Inl e | Inr ys \<Rightarrow> Inr (y # ys)))"

subsection \<open>ChatResponse\<close>

text \<open>
  A choice of the raw response carries its message; the raw response carries the list
  of choices. What \<^verbatim>\<open>message\<close> and \<^verbatim>\<open>function_call\<close> return is either one
  object or a Python list, which \<^verbatim>\<open>isinstance(_, list)\<close> tells apart.
\<close>

record choice =
  choice_message :: pyobject

record raw_response =
  choices :: "choice list"

datatype 'a one_or_list = Single 'a | Listed "'a list"

text \<open>
  Lines 107-109:
  \<^verbatim>\<open>if len(self.raw.choices) == 1: return next(iter(self.raw.choices)).message\<close>
  \<^verbatim>\<open>return [x.message for x in self.raw.choices]\<close>
\<close>

definition message :: "raw_response \<Rightarrow> error + pyobject one_or_list" where
  "message raw =
     (if length (choices raw) = 1
      then (case next_iter (choices raw) of
              Inl e \<Rightarrow> Inl e
            | Inr c \<Rightarrow> Inr (Single (choice_message c)))
      else Inr (Listed (map choice_message (choices raw))))"

text \<open>
  Lines 117-119:
  \<^verbatim>\<open>if isinstance(self.message, list): return [x.function_call for x in self.message]\<close>
  \<^verbatim>\<open>return getattr(self.message, "function_call", None)\<close>
  The list branch reads the attribute directly; the other branch reads it with a default.
\<close>

definition function_call :: "raw_response \<Rightarrow> error + pyval one_or_list" where
  "function_call raw =
     (case message raw of
        Inl e \<Rightarrow> Inl e
      | Inr (Listed ms) \<Rightarrow>
          (case comprehension (\<lambda>x. attr x ''function_call'') ms of
             Inl e \<Rightarrow> Inl e
           | Inr fs \<Rightarrow> Inr (Listed fs))
      | Inr (Single m) \<Rightarrow> Inr (Single (getattr m ''function_call'' PyNone)))"

text \<open>Sample responses.\<close>

definition plain_message :: "string \<Rightarrow> pyobject" where
  "plain_message txt = [''role'' \<mapsto> PyStr ''assistant'', ''content'' \<mapsto> PyStr txt]"

definition null_call_message :: "string \<Rightarrow> pyobject" where
  "null_call_message txt = (plain_message txt)(''function_call'' \<mapsto> PyNone)"

definition call_message :: "string \<Rightarrow> pyobject" where
  "call_message fn =
     [''role'' \<mapsto> PyStr ''assistant'', ''content'' \<mapsto> PyNone,
      ''function_call'' \<mapsto> PyObj [(''name'', PyStr fn), (''arguments'', PyStr ''{}'')]]"

definition three_choices :: raw_response where
  "three_choices =
     \<lparr>choices = [\<lparr>choice_message = call_message ''f''\<rparr>,
                 \<lparr>choice_message = plain_message ''hello''\<rparr>,
                 \<lparr>choice_message = call_message ''g''\<rparr>]\<rparr>"

definition three_choices_explicit_null :: raw_response where
  "three_choices_explicit_null =
     \<lparr>choices = [\<lparr>choice_message = call_message ''f''\<rparr>,
                 \<lparr>choice_message = null_call_message ''hello''\<rparr>,
                 \<lparr>choice_message = call_message ''g''\<rparr>]\<rparr>"

subsection \<open>Settings: the data\<close>

text \<open>
  The field \<^verbatim>\<open>api_key\<close> is declared \<^verbatim>\<open>SecretStr\<close> (line 21), a wrapper whose
  renderings mask its characters. The constructors also assign plain \<^verbatim>\<open>str\<close>
  values to it (lines 68-74 and 88), so the attribute holds one or the other.
\<close>

datatype secret = SecretStr string | PlainStr string

fun get_secret_value :: "secret \<Rightarrow> string" where
  "get_secret_value (SecretStr s) = s"
| "get_secret_value (PlainStr s) = s"

text \<open>
  Python truthiness. An optional string is true when it is neither \<^verbatim>\<open>None\<close> nor
  empty; \<^verbatim>\<open>if key := os.environ.get(NAME, None)\<close> binds \<^verbatim>\<open>key\<close> to such a
  value (\<open>nonempty\<close>). \<^verbatim>\<open>not self.api_key\<close> holds of \<^verbatim>\<open>None\<close> and of a key
  of length zero (both \<^verbatim>\<open>str\<close> and \<^verbatim>\<open>SecretStr\<close> have \<^verbatim>\<open>__len__\<close>).
\<close>

definition nonempty :: "string option \<Rightarrow> string option" where
  "nonempty v = (case v of None \<Rightarrow> None | Some s \<Rightarrow> if s = [] then None else Some s)"

definition truthy_str :: "string option \<Rightarrow> bool" where
  "truthy_str v = (case v of None \<Rightarrow> False | Some s \<Rightarrow> s \<noteq> [])"

definition truthy_secret :: "secret option \<Rightarrow> bool" where
  "truthy_secret v = (case v of None \<Rightarrow> False | Some k \<Rightarrow> get_secret_value k \<noteq> [])"

text \<open>
  A dictionary of keyword arguments over the fields of the class (lines 21-42), each
  value at the field's declared type; \<open>None\<close> is a key that the dictionary does not
  have. The same shape serves for \<^verbatim>\<open>kwargs\<close>, for
  \<^verbatim>\<open>model_dump(settings.azure_openai)\<close> and for their merge.
\<close>

record field_values =
  fd_api_key :: "string option"
  fd_api_type :: "string option"
  fd_api_base :: "string option"
  fd_api_version :: "string option"
  fd_deployment_name :: "string option"
  fd_max_tokens :: "int option"
  fd_temperature :: "real option"
  fd_request_timeout :: "real option"

text \<open>An instance of \<^verbatim>\<open>ChatCompletionSettings\<close> (lines 21-42).\<close>

record ChatCompletionSettings =
  api_key :: "secret option"
  api_type :: string
  api_base :: "string option"
  api_version :: string
  deployment_name :: "string option"
  max_tokens :: int
  temperature :: real
  request_timeout :: real

text \<open>
  What the constructors read besides their arguments: the process-wide
  \<^verbatim>\<open>marvin.settings\<close> (its sub-sections \<^verbatim>\<open>azure_openai\<close> and
  \<^verbatim>\<open>openai\<close> and the three global tuning values), the module attribute
  \<^verbatim>\<open>openai.api_key\<close> of the vendor client, and \<^verbatim>\<open>os.environ\<close>.
\<close>

record Settings =
  azure_openai :: field_values
  openai_section_api_key :: "string option"
  llm_max_tokens :: int
  llm_temperature :: real
  llm_request_timeout_seconds :: real

record World =
  settings :: Settings
  openai_api_key :: "string option"
  environ :: "string \<rightharpoonup> string"

subsection \<open>Settings: construction\<close>

text \<open>
  Lines 47-51 and 79-83:
  \<^verbatim>\<open>{k: v for (k, v) in model_dump(settings.azure_openai).items()\<close>
  \<^verbatim>\<open>  if k in self.__fields__ and v is not None}\<close>
  keeps the entries of the sub-section that name a field and are not \<^verbatim>\<open>None\<close>.
\<close>

definition defaults_of :: "Settings \<Rightarrow> field_values" where
  "defaults_of st = azure_openai st"

text \<open>\<^verbatim>\<open>{**defaults, **kwargs}\<close>: a key of \<^verbatim>\<open>kwargs\<close> replaces the same key of \<^verbatim>\<open>defaults\<close>.\<close>

definition override :: "'a option \<Rightarrow> 'a option \<Rightarrow> 'a option" where
  "override d k = (case k of None \<Rightarrow> d | Some v \<Rightarrow> Some v)"

definition merge :: "field_values \<Rightarrow> field_values \<Rightarrow> field_values" where
  "merge d k =
     \<lparr>fd_api_key = override (fd_api_key d) (fd_api_key k),
      fd_api_type = override (fd_api_type d) (fd_api_type k),
      fd_api_base = override (fd_api_base d) (fd_api_base k),
      fd_api_version = override (fd_api_version d) (fd_api_version k),
      fd_deployment_name = override (fd_deployment_name d) (fd_deployment_name k),
      fd_max_tokens = override (fd_max_tokens d) (fd_max_tokens k),
      fd_temperature = override (fd_temperature d) (fd_temperature k),
      fd_request_timeout = override (fd_request_timeout d) (fd_request_timeout k)\<rparr>"

text \<open>\<^verbatim>\<open>api_type: Literal["azure", "azure_ad"] = "azure"\<close> (line 22).\<close>

definition validate_api_type :: "string option \<Rightarrow> error + string" where
  "validate_api_type v =
     (case v of
        None \<Rightarrow> Inr ''azure''
      | Some t \<Rightarrow>
          if t = ''azure'' \<or> t = ''azure_ad'' then Inr t
          else Inl (ValidationError ''api_type''))"

definition or_default :: "'a option \<Rightarrow> 'a \<Rightarrow> 'a" where
  "or_default v d = (case v of None \<Rightarrow> d | Some x \<Rightarrow> x)"

text \<open>
  Modelled from the spec: \<^verbatim>\<open>super().__init__(*args, **kw)\<close>, the constructor of the
  base class \<^verbatim>\<open>BaseChatCompletionSettings\<close> (module
  \<^verbatim>\<open>marvin.core.ChatCompletion.base\<close>, a pydantic settings class), which is missing
  from the sources. Following section 4.1 of the spec and the field declarations of
  lines 21-42: a field takes the keyword argument when there is one and its hard-coded
  default otherwise; \<^verbatim>\<open>api_key\<close>, declared with
  \<^verbatim>\<open>env=["MARVIN_AZURE_OPENAI_API_KEY"]\<close>, takes that environment variable before its
  default \<^verbatim>\<open>None\<close>, and is stored as a \<^verbatim>\<open>SecretStr\<close>; an \<^verbatim>\<open>api_type\<close>
  outside the declared literals is a validation error. The other variables of the prefix
  \<^verbatim>\<open>MARVIN_AZURE_OPENAI_\<close> (line 91) are taken to be unset.
\<close>

definition BaseChatCompletionSettings_init ::
    "(string \<rightharpoonup> string) \<Rightarrow> field_values \<Rightarrow> error + ChatCompletionSettings" where
  "BaseChatCompletionSettings_init env kw =
     (case validate_api_type (fd_api_type kw) of
        Inl e \<Rightarrow> Inl e
      | Inr t \<Rightarrow>
          Inr \<lparr>api_key =
                 map_option SecretStr
                   (case fd_api_key kw of
                      Some k \<Rightarrow> Some k
                    | None \<Rightarrow> env ''MARVIN_AZURE_OPENAI_API_KEY''),
               api_type = t,
               api_base = fd_api_base kw,
               api_version = or_default (fd_api_version kw) ''2023-07-01-preview'',
               deployment_name = fd_deployment_name kw,
               max_tokens = or_default (fd_max_tokens kw) 1500,
               temperature = or_default (fd_temperature kw) 0.8,
               request_timeout = or_default (fd_request_timeout kw) 600\<rparr>)"

text \<open>
  \<^verbatim>\<open>self.api_key = key\<close> with a plain string \<^verbatim>\<open>key\<close>. Whether an assignment
  is validated against the field's type is the \<^verbatim>\<open>validate_assignment\<close> switch of the
  class's \<^verbatim>\<open>Config\<close>, which lines 90-92 inherit from the missing base class; it is
  a parameter here (pydantic's own default is off). Validated, the string is wrapped as
  a \<^verbatim>\<open>SecretStr\<close>; otherwise the attribute holds the string as it is.
\<close>

definition assign_api_key :: "bool \<Rightarrow> string \<Rightarrow> ChatCompletionSettings \<Rightarrow> ChatCompletionSettings" where
  "assign_api_key validate_assignment key self =
     self\<lparr>api_key := Some (if validate_assignment then SecretStr key else PlainStr key)\<rparr>"

text \<open>
  The first definition of \<^verbatim>\<open>__init__\<close>, lines 44-74. After the defaults of the
  sub-section it enters the three global tuning values (lines 53-55), calls the base
  constructor on the merge (line 56) and, when the client or the sub-section has a key
  (line 59), assigns the first non-empty of: the variable
  \<^verbatim>\<open>MARVIN_AZURE_OPENAI_API_KEY\<close>, the variable \<^verbatim>\<open>OPENAI_API_KEY\<close>,
  \<^verbatim>\<open>openai.api_key\<close>, \<^verbatim>\<open>settings.openai.api_key\<close> (lines 67-74).
\<close>

definition init_first :: "bool \<Rightarrow> World \<Rightarrow> field_values \<Rightarrow> error + ChatCompletionSettings" where
  "init_first validate_assignment w kwargs =
     (let st = settings w;
          defaults = (defaults_of st)
            \<lparr>fd_max_tokens := Some (llm_max_tokens st),
             fd_temperature := Some (llm_temperature st),
             fd_request_timeout := Some (llm_request_timeout_seconds st)\<rparr>
      in case BaseChatCompletionSettings_init (environ w) (merge defaults kwargs) of
           Inl e \<Rightarrow> Inl e
         | Inr self \<Rightarrow>
             Inr (if truthy_str (openai_api_key w) \<or> truthy_str (fd_api_key (azure_openai st))
                  then (case nonempty (environ w ''MARVIN_AZURE_OPENAI_API_KEY'') of
                          Some key \<Rightarrow> assign_api_key validate_assignment key self
                        | None \<Rightarrow>
                     (case nonempty (environ w ''OPENAI_API_KEY'') of
                          Some key \<Rightarrow> assign_api_key validate_assignment key self
                        | None \<Rightarrow>
                     (case nonempty (openai_api_key w) of
                          Some key \<Rightarrow> assign_api_key validate_assignment key self
                        | None \<Rightarrow>
                     (case nonempty (openai_section_api_key st) of
                          Some key \<Rightarrow> assign_api_key validate_assignment key self
                        | None \<Rightarrow> self))))
                  else self))"

text \<open>
  The second definition of \<^verbatim>\<open>__init__\<close>, lines 76-88: the defaults of the
  sub-section, the base constructor on the merge (line 84), and
  \<^verbatim>\<open>if openai.api_key and not self.api_key: self.api_key = openai.api_key\<close>.
\<close>

definition init_second :: "bool \<Rightarrow> World \<Rightarrow> field_values \<Rightarrow> error + ChatCompletionSettings" where
  "init_second validate_assignment w kwargs =
     (let defaults = defaults_of (settings w)
      in case BaseChatCompletionSettings_init (environ w) (merge defaults kwargs) of
           Inl e \<Rightarrow> Inl e
         | Inr self \<Rightarrow>
             Inr (case nonempty (openai_api_key w) of
                    Some key \<Rightarrow>
                      if \<not> truthy_secret (api_key self)
                      then assign_api_key validate_assignment key self
                      else self
                  | None \<Rightarrow> self))"

text \<open>
  A class body is executed top to bottom, and the second \<^verbatim>\<open>def __init__\<close> rebinds
  the name bound by the first: \<^verbatim>\<open>ChatCompletionSettings(**kwargs)\<close> runs the second
  definition and nothing calls the first.
\<close>

definition construct :: "bool \<Rightarrow> World \<Rightarrow> field_values \<Rightarrow> error + ChatCompletionSettings" where
  "construct = init_second"

subsection \<open>Settings: rendering\<close>

text \<open>
  Modelled from the spec: the string rendering of a settings object
  (\<^verbatim>\<open>__str__\<close> and \<^verbatim>\<open>__repr__\<close>, inherited from the missing base class), of
  which this is the part for \<^verbatim>\<open>api_key\<close>: the field's name, an equals sign and the
  rendering of the value held. Section 4.1 of the spec has the rendering redact the
  secret; that is what the \<^verbatim>\<open>SecretStr\<close> wrapper of line 21 does, whose rendering
  is ten asterisks for every non-empty secret. A plain \<^verbatim>\<open>str\<close> is rendered as
  Python renders any string, its characters between quotes (for characters that need
  no escape).
\<close>

definition quoted :: "string \<Rightarrow> string" where
  "quoted s = [CHR 0x27] @ s @ [CHR 0x27]"

fun repr_secret :: "secret option \<Rightarrow> string" where
  "repr_secret None = ''None''"
| "repr_secret (Some (SecretStr s)) =
     ''SecretStr('' @ quoted (if s = [] then [] else ''**********'') @ '')''"
| "repr_secret (Some (PlainStr s)) = quoted s"

definition render_api_key :: "ChatCompletionSettings \<Rightarrow> string" where
  "render_api_key self = ''api_key='' @ repr_secret (api_key self)"

subsection \<open>Sample configurations\<close>

definition no_kwargs :: field_values where
  "no_kwargs =
     \<lparr>fd_api_key = None, fd_api_type = None, fd_api_base = None, fd_api_version = None,
      fd_deployment_name = None, fd_max_tokens = None, fd_temperature = None,
      fd_request_timeout = None\<rparr>"

definition stock_settings :: Settings where
  "stock_settings =
     \<lparr>azure_openai = no_kwargs, openai_section_api_key = None,
      llm_max_tokens = 1500, llm_temperature = 0.8, llm_request_timeout_seconds = 600\<rparr>"

definition bare_world :: World where
  "bare_world = \<lparr>settings = stock_settings, openai_api_key = None, environ = Map.empty\<rparr>"

definition default_settings :: ChatCompletionSettings where
  "default_settings =
     \<lparr>api_key = None, api_type = ''azure'', api_base = None,
      api_version = ''2023-07-01-preview'', deployment_name = None,
      max_tokens = 1500, temperature = 0.8, request_timeout = 600\<rparr>"

definition tuned_world :: World where
  "tuned_world =
     bare_world\<lparr>settings := stock_settings
       \<lparr>llm_max_tokens := 2000, llm_temperature := 0.2, llm_request_timeout_seconds := 30\<rparr>\<rparr>"

definition section_key_world :: World where
  "section_key_world =
     \<lparr>settings = stock_settings\<lparr>azure_openai := no_kwargs\<lparr>fd_api_key := Some ''Z''\<rparr>\<rparr>,
      openai_api_key = None,
      environ = [''MARVIN_AZURE_OPENAI_API_KEY'' \<mapsto> ''X'', ''OPENAI_API_KEY'' \<mapsto> ''Y'']\<rparr>"

definition generic_env_world :: World where
  "generic_env_world = bare_world\<lparr>environ := [''OPENAI_API_KEY'' \<mapsto> ''Y'']\<rparr>"

definition client_and_generic_env_world :: World where
  "client_and_generic_env_world = generic_env_world\<lparr>openai_api_key := Some ''W''\<rparr>"

definition client_key_world :: World where
  "client_key_world = bare_world\<lparr>openai_api_key := Some ''sk-live''\<rparr>"

definition env_key_world :: World where
  "env_key_world = bare_world\<lparr>environ := [''MARVIN_AZURE_OPENAI_API_KEY'' \<mapsto> ''sk-live'']\<rparr>"

definition keyless_world :: World where
  "keyless_world =
     bare_world\<lparr>settings := stock_settings
       \<lparr>azure_openai := no_kwargs
          \<lparr>fd_api_base := Some ''https://r.openai.azure.com'',
           fd_deployment_name := Some ''gpt-4''\<rparr>\<rparr>\<rparr>"

definition busy_world :: World where
  "busy_world =
     \<lparr>settings = stock_settings
        \<lparr>azure_openai := no_kwargs
           \<lparr>fd_api_key := Some ''Z'', fd_api_base := Some ''https://r.openai.azure.com''\<rparr>,
         openai_section_api_key := Some ''S''\<rparr>,
      openai_api_key = Some ''W'',
      environ = [''MARVIN_AZURE_OPENAI_API_KEY'' \<mapsto> ''X'', ''OPENAI_API_KEY'' \<mapsto> ''Y'']\<rparr>"

definition two_env_keys_world :: World where
  "two_env_keys_world =
     \<lparr>settings = stock_settings\<lparr>openai_section_api_key := Some ''S''\<rparr>,
      openai_api_key = Some ''W'',
      environ = [''MARVIN_AZURE_OPENAI_API_KEY'' \<mapsto> ''X'', ''OPENAI_API_KEY'' \<mapsto> ''Y'']\<rparr>"

definition explicit_kwargs :: field_values where
  "explicit_kwargs = no_kwargs\<lparr>fd_api_key := Some ''k'', fd_api_base := Some ''https://x''\<rparr>"

subsection \<open>Properties of ChatResponse\<close>

lemma comprehension_total:
  "comprehension (\<lambda>x. Inr (g x)) xs = Inr (map g xs)"
  by (induction xs) simp_all

lemma comprehension_attr_present:
  "list_all (\<lambda>m. m name \<noteq> None) ms \<Longrightarrow>
   comprehension (\<lambda>x. attr x name) ms = Inr (map (\<lambda>m. getattr m name PyNone) ms)"
  by (induction ms) (auto simp: attr_def getattr_def)

lemma comprehension_attr_missing:
  "\<not> list_all (\<lambda>m. m name \<noteq> None) ms \<Longrightarrow>
   comprehension (\<lambda>x. attr x name) ms = Inl (AttributeError name)"
  by (induction ms) (auto simp: attr_def split: sum.splits option.splits)

lemma message_single: "message \<lparr>choices = [c]\<rparr> = Inr (Single (choice_message c))"
  by (simp add: message_def next_iter_def)

lemma message_listed:
  "length cs \<noteq> 1 \<Longrightarrow> message \<lparr>choices = cs\<rparr> = Inr (Listed (map choice_message cs))"
  by (simp add: message_def)

text \<open>
  C6. A raw response with exactly one choice yields that choice's message as a single
  object, not a list of length one; a raw response with two or more choices yields the
  list of the choices' messages, one per choice, in the order of the choices.
\<close>

theorem message_one_or_many:
  "message \<lparr>choices = [c]\<rparr> = Inr (Single (choice_message c)) \<and>
   (2 \<le> length cs \<longrightarrow>
      message \<lparr>choices = cs\<rparr> = Inr (Listed (map choice_message cs)))"
  using message_single [of c] message_listed [of cs] by simp

theorem message_one_or_many_witness:
  "message \<lparr>choices = [\<lparr>choice_message = plain_message ''a''\<rparr>]\<rparr>
     = Inr (Single (plain_message ''a'')) \<and>
   2 \<le> length (choices three_choices) \<and>
   message three_choices
     = Inr (Listed [call_message ''f'', plain_message ''hello'', call_message ''g''])"
  using message_one_or_many [of "\<lparr>choice_message = plain_message ''a''\<rparr>" "choices three_choices"]
  by (simp add: three_choices_def)

text \<open>
  C7, evaluated on a response with three choices whose second message carries no
  \<^verbatim>\<open>function_call\<close> attribute: \<^verbatim>\<open>message\<close> is the list of the three messages, in
  order, but \<^verbatim>\<open>function_call\<close> raises \<^verbatim>\<open>AttributeError\<close> instead of returning
  a list with a null second entry. With the attribute present and null, the list of three
  is returned, the null in its place; with a single choice the missing attribute reads
  as \<^verbatim>\<open>None\<close>.
\<close>

theorem function_call_three_choices_raises:
  "message three_choices
     = Inr (Listed [call_message ''f'', plain_message ''hello'', call_message ''g'']) \<and>
   function_call three_choices = Inl (AttributeError ''function_call'') \<and>
   function_call three_choices_explicit_null
     = Inr (Listed [PyObj [(''name'', PyStr ''f''), (''arguments'', PyStr ''{}'')],
                    PyNone,
                    PyObj [(''name'', PyStr ''g''), (''arguments'', PyStr ''{}'')]]) \<and>
   function_call \<lparr>choices = [\<lparr>choice_message = plain_message ''hello''\<rparr>]\<rparr>
     = Inr (Single PyNone)"
  by (simp add: function_call_def message_def next_iter_def attr_def getattr_def
      three_choices_def three_choices_explicit_null_def
      call_message_def plain_message_def null_call_message_def)

text \<open>
  C10. For a raw response whose list of choices is empty, \<^verbatim>\<open>message\<close> returns the
  empty list and \<^verbatim>\<open>function_call\<close> returns the empty list: neither raises, and
  neither returns a single object.
\<close>

theorem empty_choices_empty_lists:
  "message \<lparr>choices = []\<rparr> = Inr (Listed []) \<and>
   function_call \<lparr>choices = []\<rparr> = Inr (Listed [])"
  by (simp add: function_call_def message_def)

lemma function_call_listed:
  assumes "length cs \<noteq> 1"
  shows "function_call \<lparr>choices = cs\<rparr> =
           (if list_all (\<lambda>m. m ''function_call'' \<noteq> None) (map choice_message cs)
            then Inr (Listed (map (\<lambda>m. getattr m ''function_call'' PyNone) (map choice_message cs)))
            else Inl (AttributeError ''function_call''))"
  using assms comprehension_attr_present [of "''function_call''" "map choice_message cs"]
    comprehension_attr_missing [of "''function_call''" "map choice_message cs"]
  by (simp add: function_call_def message_listed)

subsection \<open>Properties of the constructors: helper facts\<close>

lemmas sample_defs = no_kwargs_def stock_settings_def bare_world_def tuned_world_def
  default_settings_def section_key_world_def generic_env_world_def
  client_and_generic_env_world_def client_key_world_def env_key_world_def keyless_world_def
  busy_world_def explicit_kwargs_def two_env_keys_world_def

lemmas value_defs = override_def validate_api_type_def or_default_def nonempty_def
  truthy_str_def truthy_secret_def

lemmas construction_defs = construct_def init_second_def init_first_def
  BaseChatCompletionSettings_init_def merge_def defaults_of_def assign_api_key_def

lemma nonempty_None_iff: "nonempty v = None \<longleftrightarrow> \<not> truthy_str v"
  by (simp add: nonempty_def truthy_str_def split: option.splits)

lemma nonempty_SomeD: "nonempty v = Some k \<Longrightarrow> v = Some k \<and> k \<noteq> []"
  by (simp add: nonempty_def split: option.splits if_splits)

lemma base_init_cases:
  "BaseChatCompletionSettings_init env kw =
     (case validate_api_type (fd_api_type kw) of
        Inl e \<Rightarrow> Inl e
      | Inr t \<Rightarrow>
          Inr \<lparr>api_key = map_option SecretStr
                           (override (env ''MARVIN_AZURE_OPENAI_API_KEY'') (fd_api_key kw)),
               api_type = t,
               api_base = fd_api_base kw,
               api_version = or_default (fd_api_version kw) ''2023-07-01-preview'',
               deployment_name = fd_deployment_name kw,
               max_tokens = or_default (fd_max_tokens kw) 1500,
               temperature = or_default (fd_temperature kw) 0.8,
               request_timeout = or_default (fd_request_timeout kw) 600\<rparr>)"
  by (simp add: BaseChatCompletionSettings_init_def override_def split: option.splits sum.splits)

lemma base_init_fields:
  assumes "BaseChatCompletionSettings_init env kw = Inr self"
  shows "api_key self =
           map_option SecretStr (override (env ''MARVIN_AZURE_OPENAI_API_KEY'') (fd_api_key kw))"
    and "validate_api_type (fd_api_type kw) = Inr (api_type self)"
    and "api_base self = fd_api_base kw"
    and "api_version self = or_default (fd_api_version kw) ''2023-07-01-preview''"
    and "deployment_name self = fd_deployment_name kw"
    and "max_tokens self = or_default (fd_max_tokens kw) 1500"
    and "temperature self = or_default (fd_temperature kw) 0.8"
    and "request_timeout self = or_default (fd_request_timeout kw) 600"
  using assms unfolding base_init_cases
  by (cases "validate_api_type (fd_api_type kw)"; fastforce)+

lemma base_init_succeeds:
  "validate_api_type (fd_api_type kw) = Inr t \<Longrightarrow>
   \<exists>self. BaseChatCompletionSettings_init env kw = Inr self"
  by (simp add: base_init_cases)

lemma merge_fields:
  "fd_api_key (merge d k) = override (fd_api_key d) (fd_api_key k)"
  "fd_api_type (merge d k) = override (fd_api_type d) (fd_api_type k)"
  "fd_api_base (merge d k) = override (fd_api_base d) (fd_api_base k)"
  "fd_api_version (merge d k) = override (fd_api_version d) (fd_api_version k)"
  "fd_deployment_name (merge d k) = override (fd_deployment_name d) (fd_deployment_name k)"
  "fd_max_tokens (merge d k) = override (fd_max_tokens d) (fd_max_tokens k)"
  "fd_temperature (merge d k) = override (fd_temperature d) (fd_temperature k)"
  "fd_request_timeout (merge d k) = override (fd_request_timeout d) (fd_request_timeout k)"
  by (simp_all add: merge_def)


lemma override_None: "override d None = d"
  by (simp add: override_def)

lemma assign_api_key_fields:
  "api_key (assign_api_key va key self) = Some (if va then SecretStr key else PlainStr key)"
  "api_type (assign_api_key va key self) = api_type self"
  "api_base (assign_api_key va key self) = api_base self"
  "api_version (assign_api_key va key self) = api_version self"
  "deployment_name (assign_api_key va key self) = deployment_name self"
  "max_tokens (assign_api_key va key self) = max_tokens self"
  "temperature (assign_api_key va key self) = temperature self"
  "request_timeout (assign_api_key va key self) = request_timeout self"
  by (simp_all add: assign_api_key_def)

lemma init_second_after_base:
  assumes "BaseChatCompletionSettings_init (environ w) (merge (azure_openai (settings w)) kw) = Inr self"
  shows "init_second va w kw =
           Inr (case nonempty (openai_api_key w) of
                  Some key \<Rightarrow>
                    if \<not> truthy_secret (api_key self) then assign_api_key va key self else self
                | None \<Rightarrow> self)"
  using assms by (simp add: init_second_def defaults_of_def)

lemma init_second_base_of:
  assumes "init_second va w kw = Inr s"
  obtains self where
    "BaseChatCompletionSettings_init (environ w) (merge (azure_openai (settings w)) kw) = Inr self"
  using assms by (auto simp: init_second_def defaults_of_def split: sum.splits)

lemma init_second_keeps_other_fields:
  assumes "init_second va w kw = Inr s"
    and "BaseChatCompletionSettings_init (environ w) (merge (azure_openai (settings w)) kw) = Inr self"
  shows "api_type s = api_type self" "api_base s = api_base self"
    "api_version s = api_version self" "deployment_name s = deployment_name self"
    "max_tokens s = max_tokens self" "temperature s = temperature self"
    "request_timeout s = request_timeout self"
  using assms(1) unfolding init_second_after_base [OF assms(2)]
  by (auto simp: assign_api_key_fields split: option.splits if_splits)

lemma init_second_api_key:
  assumes "init_second va w kw = Inr s"
    and "BaseChatCompletionSettings_init (environ w) (merge (azure_openai (settings w)) kw) = Inr self"
  shows "api_key s =
           (case nonempty (openai_api_key w) of
              Some key \<Rightarrow>
                if \<not> truthy_secret (api_key self)
                then Some (if va then SecretStr key else PlainStr key)
                else api_key self
            | None \<Rightarrow> api_key self)"
  using assms(1) unfolding init_second_after_base [OF assms(2)]
  by (auto simp: assign_api_key_fields split: option.splits if_splits)


lemma init_second_independent_of_generic_env:
  "init_second va (w\<lparr>environ := (environ w)(''OPENAI_API_KEY'' := v)\<rparr>) kw = init_second va w kw"
  by (simp add: init_second_def defaults_of_def base_init_cases cong: sum.case_cong)

text \<open>
  The precedence of the second definition for the three tuning fields: the hard-coded
  default, then the sub-section, then the keyword argument.
\<close>

lemma init_second_tuning_fields:
  assumes "init_second va w kw = Inr s"
  shows "max_tokens s =
           or_default (override (fd_max_tokens (azure_openai (settings w))) (fd_max_tokens kw)) 1500"
    and "temperature s =
           or_default (override (fd_temperature (azure_openai (settings w))) (fd_temperature kw)) 0.8"
    and "request_timeout s =
           or_default (override (fd_request_timeout (azure_openai (settings w)))
             (fd_request_timeout kw)) 600"
proof -
  from assms obtain self where
    b: "BaseChatCompletionSettings_init (environ w) (merge (azure_openai (settings w)) kw) = Inr self"
    by (rule init_second_base_of)
  note k = init_second_keeps_other_fields [OF assms b] and f = base_init_fields [OF b]
  show "max_tokens s =
           or_default (override (fd_max_tokens (azure_openai (settings w))) (fd_max_tokens kw)) 1500"
    by (simp add: k f merge_fields)
  show "temperature s =
           or_default (override (fd_temperature (azure_openai (settings w))) (fd_temperature kw)) 0.8"
    by (simp add: k f merge_fields)
  show "request_timeout s =
           or_default (override (fd_request_timeout (azure_openai (settings w)))
             (fd_request_timeout kw)) 600"
    by (simp add: k f merge_fields)
qed

text \<open>
  The precedence of the first definition for the same fields: the global tuning value,
  then the keyword argument; neither the hard-coded default nor the sub-section is ever
  read back.
\<close>

lemma init_first_tuning_fields:
  assumes "init_first va w kw = Inr s"
  shows "max_tokens s = or_default (fd_max_tokens kw) (llm_max_tokens (settings w))"
    and "temperature s = or_default (fd_temperature kw) (llm_temperature (settings w))"
    and "request_timeout s =
           or_default (fd_request_timeout kw) (llm_request_timeout_seconds (settings w))"
proof -
  let ?d = "(azure_openai (settings w))
              \<lparr>fd_max_tokens := Some (llm_max_tokens (settings w)),
               fd_temperature := Some (llm_temperature (settings w)),
               fd_request_timeout := Some (llm_request_timeout_seconds (settings w))\<rparr>"
  from assms obtain self where
    b: "BaseChatCompletionSettings_init (environ w) (merge ?d kw) = Inr self"
    by (auto simp: init_first_def defaults_of_def Let_def split: sum.splits)
  have s: "max_tokens s = max_tokens self \<and> temperature s = temperature self
           \<and> request_timeout s = request_timeout self"
    using assms b
    by (auto simp: init_first_def defaults_of_def Let_def assign_api_key_fields
        split: option.splits if_splits)
  note f = base_init_fields [OF b]
  show "max_tokens s = or_default (fd_max_tokens kw) (llm_max_tokens (settings w))"
    by (simp add: s f merge_fields override_def or_default_def split: option.splits)
  show "temperature s = or_default (fd_temperature kw) (llm_temperature (settings w))"
    by (simp add: s f merge_fields override_def or_default_def split: option.splits)
  show "request_timeout s =
           or_default (fd_request_timeout kw) (llm_request_timeout_seconds (settings w))"
    by (simp add: s f merge_fields override_def or_default_def split: option.splits)
qed

text \<open>
  With validated assignment the key is never held as a plain string; a key that came
  through the base constructor is a \<^verbatim>\<open>SecretStr\<close>, whose rendering is the mask
  whatever the key.
\<close>

lemma construct_validated_never_plain:
  assumes "construct True w kw = Inr s"
  shows "api_key s \<noteq> Some (PlainStr k)"
proof -
  from assms have i: "init_second True w kw = Inr s"
    by (simp add: construct_def)
  then obtain self where
    b: "BaseChatCompletionSettings_init (environ w) (merge (azure_openai (settings w)) kw) = Inr self"
    by (rule init_second_base_of)
  have "api_key self \<noteq> Some (PlainStr k)"
    by (auto simp: base_init_fields(1) [OF b])
  then show ?thesis
    by (simp add: init_second_api_key [OF i b] split: option.splits)
qed

lemma render_masks_secret:
  "api_key s = Some (SecretStr k) \<Longrightarrow> k \<noteq> [] \<Longrightarrow>
   render_api_key s = ''api_key=SecretStr('' @ quoted ''**********'' @ '')''"
  by (simp add: render_api_key_def)

subsection \<open>Properties of the constructors: the claims\<close>

text \<open>
  C1, evaluated where the global tuning values are 2000, 0.2 and 30, the sub-section
  is empty and no keyword argument is given: the constructed settings carry the
  hard-coded defaults 1500, 0.8 and 600, not the global tuning values, because
  constructing runs the second definition; the first definition, on the same input,
  yields the global tuning values.
\<close>

theorem construct_drops_global_tuning:
  "construct va tuned_world no_kwargs = Inr default_settings \<and>
   max_tokens default_settings = 1500 \<and>
   llm_max_tokens (settings tuned_world) = 2000 \<and>
   init_first va tuned_world no_kwargs
     = Inr (default_settings\<lparr>max_tokens := 2000, temperature := 0.2, request_timeout := 30\<rparr>)"
  by (simp add: construction_defs value_defs sample_defs)


text \<open>
  C3, as the code has it. When no api key comes from the keyword arguments, from the
  sub-section, from the variable \<^verbatim>\<open>MARVIN_AZURE_OPENAI_API_KEY\<close> or from the client,
  and the \<^verbatim>\<open>api_type\<close> validates, construction does not fail: it returns settings
  whose \<^verbatim>\<open>api_key\<close> is \<^verbatim>\<open>None\<close>. No error about a missing key is raised.
\<close>

theorem construct_without_key_leaves_key_unset:
  assumes "fd_api_key kw = None"
    and "fd_api_key (azure_openai (settings w)) = None"
    and "environ w ''MARVIN_AZURE_OPENAI_API_KEY'' = None"
    and "\<not> truthy_str (openai_api_key w)"
    and "validate_api_type (fd_api_type (merge (azure_openai (settings w)) kw)) = Inr t"
  shows "\<exists>s. construct va w kw = Inr s \<and> api_key s = None \<and> api_type s = t"
proof -
  from assms(5) obtain self where
    b: "BaseChatCompletionSettings_init (environ w) (merge (azure_openai (settings w)) kw) = Inr self"
    using base_init_succeeds by blast
  have n: "nonempty (openai_api_key w) = None"
    using assms(4) by (simp add: nonempty_None_iff)
  have c: "construct va w kw = Inr self"
    by (simp add: construct_def init_second_after_base [OF b] n)
  have k: "api_key self = None"
    by (simp add: base_init_fields(1) [OF b] merge_fields assms(1-3) override_def)
  have "Inr (api_type self) = (Inr t :: error + string)"
    using base_init_fields(2) [OF b] assms(5) by simp
  then have "api_type self = t"
    by simp
  with c k show ?thesis
    by simp
qed

theorem construct_without_key_leaves_key_unset_witness:
  "fd_api_key no_kwargs = None \<and>
   fd_api_key (azure_openai (settings keyless_world)) = None \<and>
   environ keyless_world ''MARVIN_AZURE_OPENAI_API_KEY'' = None \<and>
   \<not> truthy_str (openai_api_key keyless_world) \<and>
   validate_api_type (fd_api_type (merge (azure_openai (settings keyless_world)) no_kwargs))
     = Inr ''azure'' \<and>
   (\<exists>s. construct False keyless_world no_kwargs = Inr s \<and> api_key s = None \<and>
        api_type s = ''azure'')"
proof -
  have 1: "fd_api_key no_kwargs = None"
    by (simp add: no_kwargs_def)
  have 2: "fd_api_key (azure_openai (settings keyless_world)) = None"
    by (simp add: sample_defs)
  have 3: "environ keyless_world ''MARVIN_AZURE_OPENAI_API_KEY'' = None"
    by (simp add: sample_defs)
  have 4: "\<not> truthy_str (openai_api_key keyless_world)"
    by (simp add: sample_defs truthy_str_def)
  have 5: "validate_api_type (fd_api_type (merge (azure_openai (settings keyless_world)) no_kwargs))
     = Inr ''azure''"
    by (simp add: sample_defs merge_def value_defs)
  from construct_without_key_leaves_key_unset [OF 1 2 3 4 5, of False] 1 2 3 4 5
  show ?thesis
    by blast
qed

text \<open>
  The claim C3 as the spec states it fails: with no key in any source, constructing
  returns the default settings, the key unset, under either setting of
  \<^verbatim>\<open>validate_assignment\<close>.
\<close>

theorem construct_without_key_succeeds:
  "construct False bare_world no_kwargs = Inr default_settings \<and>
   construct True bare_world no_kwargs = Inr default_settings \<and>
   api_key default_settings = None \<and>
   environ bare_world ''MARVIN_AZURE_OPENAI_API_KEY'' = None \<and>
   environ bare_world ''OPENAI_API_KEY'' = None \<and>
   openai_api_key bare_world = None \<and>
   fd_api_key (azure_openai (settings bare_world)) = None \<and>
   openai_section_api_key (settings bare_world) = None"
  by (simp add: construction_defs value_defs sample_defs)




text \<open>
  C5, evaluated where only \<^verbatim>\<open>OPENAI_API_KEY\<close> is set, to Y: the constructed settings
  have no key. Constructing never reads that variable: changing it changes nothing. Where
  the client also has a key W, constructing yields W, while the first definition, which
  reads the variable at lines 69-70 under the guard of line 59, yields Y there and no key
  when the guard fails.
\<close>

theorem construct_ignores_generic_env_key:
  "construct va generic_env_world no_kwargs = Inr default_settings \<and>
   api_key default_settings = None \<and>
   environ generic_env_world ''OPENAI_API_KEY'' = Some ''Y'' \<and>
   environ generic_env_world ''MARVIN_AZURE_OPENAI_API_KEY'' = None \<and>
   init_first va generic_env_world no_kwargs = Inr default_settings \<and>
   construct False client_and_generic_env_world no_kwargs
     = Inr (default_settings\<lparr>api_key := Some (PlainStr ''W'')\<rparr>) \<and>
   init_first False client_and_generic_env_world no_kwargs
     = Inr (default_settings\<lparr>api_key := Some (PlainStr ''Y'')\<rparr>) \<and>
   construct va (w\<lparr>environ := (environ w)(''OPENAI_API_KEY'' := v)\<rparr>) kw = construct va w kw"
  using init_second_independent_of_generic_env [of va w v kw]
  by (simp add: construction_defs value_defs sample_defs)





end
